theory Spec2Isabelle
  imports Complex_Main "HOL-Library.Sublist"
begin

section \<open>Python values and the process state\<close>

text \<open>
  An exception is represented by its text (\<open>str(e)\<close>), which is all the handlers of the
  program use. A call that may raise returns \<open>exn + 'a\<close>, with \<open>Inl\<close> for the raise.
  Only exceptions derived from \<open>Exception\<close> are modelled (the handlers are
  \<open>except Exception\<close> and, once, a bare \<open>except\<close>).
\<close>

type_synonym exn = string

text \<open>Truth value of a Python \<open>str\<close> or \<open>None\<close>: \<open>None\<close> and the empty string are false.\<close>

definition truthy :: "string option \<Rightarrow> bool" where
  "truthy v = (case v of None \<Rightarrow> False | Some s \<Rightarrow> s \<noteq> [])"

text \<open>What an f-string prints for a \<open>str\<close> or \<open>None\<close>.\<close>

definition py_str :: "string option \<Rightarrow> string" where
  "py_str v = (case v of None \<Rightarrow> ''None'' | Some s \<Rightarrow> s)"

text \<open>What an f-string prints for an \<open>int\<close>: its decimal digits, with a sign.\<close>

fun digits :: "nat \<Rightarrow> string" where
  "digits n = (if n < 10 then [''0123456789'' ! n]
               else digits (n div 10) @ [''0123456789'' ! (n mod 10)])"

declare digits.simps [simp del]

definition py_int_str :: "int \<Rightarrow> string" where
  "py_int_str i = (if i < 0 then CHR ''-'' # digits (nat (- i)) else digits (nat i))"

section \<open>The local store (\<open>alerts.db\<close>)\<close>

text \<open>
  One row of the table \<open>alerts\<close>. \<open>row_id\<close> is the column \<open>id\<close>
  (\<open>INTEGER PRIMARY KEY AUTOINCREMENT\<close>). A column that the schema lets be \<open>NULL\<close>
  and that some statement of the program can leave \<open>NULL\<close> is an \<open>option\<close>; the two flag
  columns are \<open>INTEGER\<close> without \<open>NOT NULL\<close>. The coordinates are \<open>REAL\<close>: they are
  only stored and read back, never computed with.
\<close>

record alert_row =
  row_id :: nat
  label :: string
  timestamp :: string
  image_path :: string
  cloud_url :: "string option"
  synced :: "int option"
  telegram_sent :: "int option"
  latitude :: "real option"
  longitude :: "real option"
  location :: "string option"

text \<open>
  The table: the names of its columns in declaration order, its rows, and \<open>seq\<close>, the
  largest \<open>id\<close> ever given out (the table's entry in \<open>sqlite_sequence\<close>). The model covers a
  table created by the \<open>CREATE TABLE\<close> statement of \<open>init_db\<close> or by an earlier version of
  it with fewer columns: \<open>id\<close> is the autoincrement key and \<open>image_path\<close> is \<open>UNIQUE\<close>.
  The field of a row for a column that the table does not have is never read: every
  statement that names a missing column fails.
\<close>

record alerts_table =
  columns :: "string list"
  rows :: "alert_row list"
  seq :: nat

text \<open>A document of the remote collection \<open>animal_alerts\<close>.\<close>

record document =
  doc_label :: string
  doc_timestamp :: string
  doc_cloud_url :: "string option"
  doc_local_path :: string
  doc_latitude :: "real option"
  doc_longitude :: "real option"
  doc_location :: string

text \<open>
  What the operations can change: the database file (\<open>None\<close> while it has no table
  \<open>alerts\<close>), the remote collection, and the lines printed so far.
\<close>

record world =
  db :: "alerts_table option"
  docs :: "document list"
  printed :: "string list"

definition print :: "string \<Rightarrow> world \<Rightarrow> world" where
  "print line w = w\<lparr>printed := printed w @ [line]\<rparr>"

section \<open>The notifier (\<open>alert.py\<close>)\<close>

record http_request =
  req_url :: string
  req_photo :: string
  req_chat_id :: "string option"
  req_caption :: string

record http_response =
  status_code :: int
  resp_text :: string

text \<open>
  The surroundings of \<open>send_alert\<close>: the two environment variables read at import
  (\<open>None\<close> when unset), the file system (\<open>open(img_path, "rb")\<close> gives the file or
  raises) and the network (\<open>requests.post\<close> gives a response or raises).
\<close>

record telegram_env =
  BOT_TOKEN :: "string option"
  CHAT_ID :: "string option"
  open_rb :: "string \<Rightarrow> exn + string"
  requests_post :: "http_request \<Rightarrow> exn + http_response"

definition caption_of :: "string \<Rightarrow> string \<Rightarrow> string option \<Rightarrow> string" where
  "caption_of lbl ts extra_msg =
     (let caption = ''[ALERT] '' @ lbl @ '' detected at '' @ ts
      in case extra_msg of
           None \<Rightarrow> caption
         | Some m \<Rightarrow> if m \<noteq> [] then caption @ [CHR 0x0A] @ m else caption)"

definition photo_request ::
  "telegram_env \<Rightarrow> string \<Rightarrow> string \<Rightarrow> string option \<Rightarrow> string \<Rightarrow> http_request" where
  "photo_request env lbl ts extra_msg img_file =
     \<lparr>req_url = ''https://api.telegram.org/bot'' @ py_str (BOT_TOKEN env) @ ''/sendPhoto'',
      req_photo = img_file,
      req_chat_id = CHAT_ID env,
      req_caption = caption_of lbl ts extra_msg\<rparr>"

text \<open>The body of the \<open>try\<close> block of \<open>send_alert\<close>: it returns, or raises.\<close>

definition send_alert_try ::
  "telegram_env \<Rightarrow> world \<Rightarrow> string \<Rightarrow> string \<Rightarrow> string \<Rightarrow> string option
     \<Rightarrow> (exn + bool) \<times> world" where
  "send_alert_try env w lbl ts img_path extra_msg =
     (case open_rb env img_path of
        Inl e \<Rightarrow> (Inl e, w)
      | Inr img_file \<Rightarrow>
          (case requests_post env (photo_request env lbl ts extra_msg img_file) of
             Inl e \<Rightarrow> (Inl e, w)
           | Inr resp \<Rightarrow>
               if status_code resp = 200
               then (Inr True, print (''[Telegram] Alert sent for '' @ lbl) w)
               else (Inr False,
                     print (''[Telegram Error] '' @ py_int_str (status_code resp)
                              @ '': '' @ resp_text resp) w)))"

text \<open>\<open>send_alert\<close>: the \<open>try\<close> block with its handler \<open>except Exception as e\<close>.\<close>

definition send_alert ::
  "telegram_env \<Rightarrow> world \<Rightarrow> string \<Rightarrow> string \<Rightarrow> string \<Rightarrow> string option
     \<Rightarrow> (exn + bool) \<times> world" where
  "send_alert env w lbl ts img_path extra_msg =
     (case send_alert_try env w lbl ts img_path extra_msg of
        (Inl e, w') \<Rightarrow> (Inr False, print (''[Telegram Exception] '' @ e) w')
      | (Inr b, w') \<Rightarrow> (Inr b, w'))"

section \<open>The record store (\<open>storage.py\<close>)\<close>

subsection \<open>Surroundings\<close>

text \<open>The object that \<open>geocoder.ip('me')\<close> returns, as far as \<open>store_alert\<close> reads it.\<close>

record geo_result =
  latlng :: "real list option"
  city :: "string option"

text \<open>
  What one call of an operation of \<open>storage.py\<close> meets outside the process:
  \<^item> \<open>now\<close>: the local time, already formatted by \<open>strftime("%Y-%m-%d %H:%M:%S")\<close>;
  \<^item> \<open>geocoder_ip\<close>: the outcome of \<open>geocoder.ip('me')\<close>;
  \<^item> \<open>upload\<close>: the outcome of \<open>cloudinary.uploader.upload\<close> for a file, a folder and a
    context, a dictionary when it returns;
  \<^item> \<open>sqlite_error\<close>: \<open>Some e\<close> when the database file cannot be used (unreadable, locked):
    \<open>sqlite3\<close> then raises \<open>e\<close> before anything is changed;
  \<^item> \<open>firestore_db\<close>: whether the module-level client is set (it is \<open>None\<close> when the
    credentials file is missing or the initialisation failed);
  \<^item> \<open>firestore_set\<close>: the outcome of creating a document in \<open>animal_alerts\<close> and
    writing it, \<open>Some e\<close> when that raises.
\<close>

record storage_env =
  now :: string
  geocoder_ip :: "exn + geo_result"
  upload :: "string \<Rightarrow> string \<Rightarrow> (string \<times> string) list \<Rightarrow> exn + (string \<rightharpoonup> string)"
  sqlite_error :: "exn option"
  firestore_db :: bool
  firestore_set :: "document \<Rightarrow> exn option"

subsection \<open>\<open>init_db\<close>\<close>

definition declared_columns :: "string list" where
  "declared_columns =
     [''id'', ''label'', ''timestamp'', ''image_path'', ''cloud_url'', ''synced'',
      ''telegram_sent'', ''latitude'', ''longitude'', ''location'']"

definition upgrades :: "(string \<times> string) list" where
  "upgrades =
     [(''synced'', ''INTEGER DEFAULT 0''), (''telegram_sent'', ''INTEGER DEFAULT 0''),
      (''latitude'', ''REAL''), (''longitude'', ''REAL''), (''location'', ''TEXT'')]"

text \<open>\<open>CREATE TABLE IF NOT EXISTS alerts (...)\<close>: an existing table is left as it is.\<close>

definition create_table_if_not_exists :: "alerts_table option \<Rightarrow> alerts_table" where
  "create_table_if_not_exists d =
     (case d of
        None \<Rightarrow> \<lparr>columns = declared_columns, rows = [], seq = 0\<rparr>
      | Some t \<Rightarrow> t)"

text \<open>
  The value that an existing row gets in a column added by \<open>ALTER TABLE\<close>: the declared
  default, \<open>0\<close> for the two flags, and \<open>NULL\<close> where none is declared.
\<close>

definition column_default :: "string \<Rightarrow> alert_row \<Rightarrow> alert_row" where
  "column_default col r =
     (if col = ''synced'' then r\<lparr>synced := Some 0\<rparr>
      else if col = ''telegram_sent'' then r\<lparr>telegram_sent := Some 0\<rparr>
      else if col = ''latitude'' then r\<lparr>latitude := None\<rparr>
      else if col = ''longitude'' then r\<lparr>longitude := None\<rparr>
      else if col = ''location'' then r\<lparr>location := None\<rparr>
      else r)"

text \<open>
  \<open>ALTER TABLE alerts ADD COLUMN col col_type\<close>. Data definition statements are committed
  as they run. Column names are compared as Python's \<open>not in\<close> compares them, character by
  character.
\<close>

definition add_column :: "string \<Rightarrow> world \<Rightarrow> exn + world" where
  "add_column col w =
     (case db w of
        None \<Rightarrow> Inl ''no such table: alerts''
      | Some t \<Rightarrow>
          if col \<in> set (columns t) then Inl (''duplicate column name: '' @ col)
          else Inr (w\<lparr>db := Some (t\<lparr>columns := columns t @ [col],
                                     rows := map (column_default col) (rows t)\<rparr>)\<rparr>))"

text \<open>
  The loop \<open>for col, col_type in upgrades.items()\<close>; \<open>cols\<close> is the list read by
  \<open>PRAGMA table_info\<close> before the loop, which the loop does not update.
\<close>

fun add_missing :: "string list \<Rightarrow> (string \<times> string) list \<Rightarrow> world \<Rightarrow> (exn + unit) \<times> world" where
  "add_missing cols [] w = (Inr (), w)"
| "add_missing cols ((col, col_type) # us) w =
     (if col \<notin> set cols then
        (case add_column col w of
           Inl e \<Rightarrow> (Inl e, w)
         | Inr w' \<Rightarrow>
             add_missing cols us (print (''[DB Upgrade] Added missing column: '' @ col) w'))
      else add_missing cols us w)"

text \<open>
  \<open>str.join\<close>, and what \<open>print\<close> shows for a list of strings (for strings without quotes
  or backslashes, as column names are).
\<close>

fun join :: "string \<Rightarrow> string list \<Rightarrow> string" where
  "join sep [] = []"
| "join sep [x] = x"
| "join sep (x # y # ys) = x @ sep @ join sep (y # ys)"

definition py_repr_list :: "string list \<Rightarrow> string" where
  "py_repr_list xs = ''['' @ join '', '' (map (\<lambda>s. [CHR 0x27] @ s @ [CHR 0x27]) xs) @ '']''"

text \<open>\<open>init_db\<close> has no handler: what \<open>sqlite3\<close> raises, the caller gets.\<close>

definition init_db :: "storage_env \<Rightarrow> world \<Rightarrow> (exn + unit) \<times> world" where
  "init_db env w =
     (case sqlite_error env of
        Some e \<Rightarrow> (Inl e, w)
      | None \<Rightarrow>
          (let t = create_table_if_not_exists (db w);
               w1 = w\<lparr>db := Some t\<rparr>;
               cols = columns t
           in case add_missing cols upgrades w1 of
                (Inl e, w2) \<Rightarrow> (Inl e, w2)
              | (Inr u, w2) \<Rightarrow>
                  (Inr (),
                   print (''[DB] Alerts table ready with columns: ''
                            @ py_repr_list (cols @ map fst upgrades)) w2)))"

subsection \<open>\<open>store_alert\<close>\<close>

definition list_index :: "'a list \<Rightarrow> nat \<Rightarrow> exn + 'a" where
  "list_index xs i = (if i < length xs then Inr (xs ! i) else Inl ''list index out of range'')"

definition city_or_unknown :: "geo_result \<Rightarrow> string" where
  "city_or_unknown g =
     (case city g of None \<Rightarrow> ''Unknown'' | Some c \<Rightarrow> if c \<noteq> [] then c else ''Unknown'')"

text \<open>
  The \<open>try\<close> block of the geolocation step. \<open>g.latlng\<close> is false when it is \<open>None\<close> or
  empty; otherwise its entries 0 and 1 are read, and a missing entry raises.
\<close>

definition geolocate_try :: "storage_env \<Rightarrow> exn + (real option \<times> real option \<times> string)" where
  "geolocate_try env =
     (case geocoder_ip env of
        Inl e \<Rightarrow> Inl e
      | Inr g \<Rightarrow>
          (case latlng g of
             None \<Rightarrow> Inr (None, None, city_or_unknown g)
           | Some [] \<Rightarrow> Inr (None, None, city_or_unknown g)
           | Some (x # xs) \<Rightarrow>
               (case list_index (x # xs) 0 of
                  Inl e \<Rightarrow> Inl e
                | Inr la \<Rightarrow>
                    (case list_index (x # xs) 1 of
                       Inl e \<Rightarrow> Inl e
                     | Inr lo \<Rightarrow> Inr (Some la, Some lo, city_or_unknown g)))))"

text \<open>The step with its bare \<open>except\<close>: latitude, longitude and location.\<close>

definition geolocate :: "storage_env \<Rightarrow> real option \<times> real option \<times> string" where
  "geolocate env =
     (case geolocate_try env of
        Inl e \<Rightarrow> (None, None, ''Unknown'')
      | Inr r \<Rightarrow> r)"

text \<open>
  The upload step: only the call can raise; \<open>res.get\<close> gives \<open>None\<close> for a key that the
  response does not have. It yields \<open>cloud_url\<close> and \<open>public_id\<close>.
\<close>

definition upload_step ::
  "storage_env \<Rightarrow> world \<Rightarrow> string \<Rightarrow> string \<Rightarrow> string
     \<Rightarrow> (string option \<times> string option) \<times> world" where
  "upload_step env w lbl ts img_path =
     (case upload env img_path ''wildlife_alerts'' [(''label'', lbl), (''timestamp'', ts)] of
        Inl e \<Rightarrow> ((None, None), print (''[Cloudinary Error] '' @ e) w)
      | Inr res \<Rightarrow>
          ((res ''secure_url'', res ''public_id''),
           print (''[Cloudinary] Uploaded: '' @ py_str (res ''secure_url'')) w))"

text \<open>The first of the named columns that the table does not have, if any.\<close>

definition missing_column :: "string list \<Rightarrow> alerts_table \<Rightarrow> string option" where
  "missing_column names t = find (\<lambda>c. c \<notin> set (columns t)) names"

definition insert_columns :: "string list" where
  "insert_columns =
     [''label'', ''timestamp'', ''image_path'', ''cloud_url'', ''synced'', ''telegram_sent'',
      ''latitude'', ''longitude'', ''location'']"

text \<open>
  The key of a new row of an \<open>AUTOINCREMENT\<close> table: one more than the largest key the
  table has or ever had. Keys are 64-bit signed integers, and the insert fails when the
  largest one is taken.
\<close>

definition max_rowid :: nat where
  "max_rowid = 2 ^ 63 - 1"

definition largest_rowid :: "alerts_table \<Rightarrow> nat" where
  "largest_rowid t = fold max (map row_id (rows t)) (seq t)"

definition next_rowid :: "alerts_table \<Rightarrow> exn + nat" where
  "next_rowid t =
     (if largest_rowid t \<ge> max_rowid then Inl ''database or disk is full''
      else Inr (largest_rowid t + 1))"

text \<open>
  The scalar subquery \<open>(SELECT telegram_sent FROM alerts WHERE image_path = ?)\<close>: the
  value in the first matching row, \<open>NULL\<close> when no row matches; and \<open>COALESCE(v, 0)\<close>.
\<close>

definition select_telegram_sent :: "alerts_table \<Rightarrow> string \<Rightarrow> int option" where
  "select_telegram_sent t img_path =
     (case find (\<lambda>r. image_path r = img_path) (rows t) of
        None \<Rightarrow> None
      | Some r \<Rightarrow> telegram_sent r)"

definition coalesce0 :: "int option \<Rightarrow> int" where
  "coalesce0 v = (case v of None \<Rightarrow> 0 | Some i \<Rightarrow> i)"

text \<open>
  \<open>INSERT OR REPLACE INTO alerts (...) VALUES (...)\<close>. The values, the subquery among
  them, are computed on the table as it is; then the row that holds the same
  \<open>image_path\<close> is deleted and the new row is added under a new key.
\<close>

definition insert_or_replace ::
  "alerts_table \<Rightarrow> string \<Rightarrow> string \<Rightarrow> string \<Rightarrow> string option
     \<Rightarrow> real option \<Rightarrow> real option \<Rightarrow> string \<Rightarrow> exn + alerts_table" where
  "insert_or_replace t lbl ts img_path url lat lon loc =
     (case missing_column insert_columns t of
        Some c \<Rightarrow> Inl (''table alerts has no column named '' @ c)
      | None \<Rightarrow>
          (case next_rowid t of
             Inl e \<Rightarrow> Inl e
           | Inr i \<Rightarrow>
               Inr (t\<lparr>rows := filter (\<lambda>r. image_path r \<noteq> img_path) (rows t) @
                        [\<lparr>row_id = i, label = lbl, timestamp = ts, image_path = img_path,
                          cloud_url = url,
                          synced = Some (if truthy url then 1 else 0),
                          telegram_sent = Some (coalesce0 (select_telegram_sent t img_path)),
                          latitude = lat, longitude = lon, location = Some loc\<rparr>],
                      seq := i\<rparr>)))"

text \<open>The \<open>try\<close> block of the local insert, and the step with its handler.\<close>

definition sqlite_insert_try ::
  "storage_env \<Rightarrow> world \<Rightarrow> string \<Rightarrow> string \<Rightarrow> string \<Rightarrow> string option
     \<Rightarrow> real option \<Rightarrow> real option \<Rightarrow> string \<Rightarrow> exn + world" where
  "sqlite_insert_try env w lbl ts img_path url lat lon loc =
     (case sqlite_error env of
        Some e \<Rightarrow> Inl e
      | None \<Rightarrow>
          (case db w of
             None \<Rightarrow> Inl ''no such table: alerts''
           | Some t \<Rightarrow>
               (case insert_or_replace t lbl ts img_path url lat lon loc of
                  Inl e \<Rightarrow> Inl e
                | Inr t' \<Rightarrow> Inr (w\<lparr>db := Some t'\<rparr>))))"

definition sqlite_step ::
  "storage_env \<Rightarrow> world \<Rightarrow> string \<Rightarrow> string \<Rightarrow> string \<Rightarrow> string option
     \<Rightarrow> real option \<Rightarrow> real option \<Rightarrow> string \<Rightarrow> world" where
  "sqlite_step env w lbl ts img_path url lat lon loc =
     (case sqlite_insert_try env w lbl ts img_path url lat lon loc of
        Inl e \<Rightarrow> print (''[SQLite Error] '' @ e) w
      | Inr w' \<Rightarrow> w')"

text \<open>The remote mirror: \<open>if firestore_db and cloud_url\<close>, then a \<open>try\<close> with its handler.\<close>

definition firebase_step ::
  "storage_env \<Rightarrow> world \<Rightarrow> string \<Rightarrow> string \<Rightarrow> string \<Rightarrow> string option
     \<Rightarrow> real option \<Rightarrow> real option \<Rightarrow> string \<Rightarrow> world" where
  "firebase_step env w lbl ts img_path url lat lon loc =
     (if firestore_db env \<and> truthy url then
        (let doc = \<lparr>doc_label = lbl, doc_timestamp = ts, doc_cloud_url = url,
                    doc_local_path = img_path, doc_latitude = lat, doc_longitude = lon,
                    doc_location = loc\<rparr>
         in case firestore_set env doc of
              Some e \<Rightarrow> print (''[Firebase Error] '' @ e) w
            | None \<Rightarrow> print (''[Firebase] Alert stored for '' @ lbl) (w\<lparr>docs := docs w @ [doc]\<rparr>))
      else w)"

definition store_alert ::
  "storage_env \<Rightarrow> world \<Rightarrow> string \<Rightarrow> string
     \<Rightarrow> (exn + (string option \<times> string option)) \<times> world" where
  "store_alert env w lbl img_path =
     (let ts = now env;
          (lat, lon, loc) = geolocate env;
          ((url, public_id), w1) = upload_step env w lbl ts img_path;
          w2 = sqlite_step env w1 lbl ts img_path url lat lon loc;
          w3 = firebase_step env w2 lbl ts img_path url lat lon loc
      in (Inr (url, public_id), w3))"

subsection \<open>\<open>get_latest_alerts\<close>\<close>

type_synonym alert_tuple =
  "string \<times> string \<times> string option \<times> real option \<times> real option \<times> string option"

definition select_columns :: "string list" where
  "select_columns =
     [''label'', ''timestamp'', ''cloud_url'', ''latitude'', ''longitude'', ''location'', ''id'']"

definition project :: "alert_row \<Rightarrow> alert_tuple" where
  "project r = (label r, timestamp r, cloud_url r, latitude r, longitude r, location r)"

text \<open>\<open>ORDER BY id DESC\<close>, and \<open>LIMIT n\<close>: a negative \<open>n\<close> puts no bound on the rows.\<close>

definition order_by_id_desc :: "alert_row list \<Rightarrow> alert_row list" where
  "order_by_id_desc rs = rev (sort_key row_id rs)"

definition sql_limit :: "int \<Rightarrow> 'a list \<Rightarrow> 'a list" where
  "sql_limit n xs = (if n < 0 then xs else take (nat n) xs)"

text \<open>\<open>get_latest_alerts\<close> has no handler either.\<close>

definition get_latest_alerts ::
  "storage_env \<Rightarrow> world \<Rightarrow> int \<Rightarrow> (exn + alert_tuple list) \<times> world" where
  "get_latest_alerts env w limit =
     (case sqlite_error env of
        Some e \<Rightarrow> (Inl e, w)
      | None \<Rightarrow>
          (case db w of
             None \<Rightarrow> (Inl ''no such table: alerts'', w)
           | Some t \<Rightarrow>
               (case missing_column select_columns t of
                  Some c \<Rightarrow> (Inl (''no such column: '' @ c), w)
                | None \<Rightarrow>
                    (Inr (map project (sql_limit limit (order_by_id_desc (rows t)))), w))))"

subsection \<open>\<open>update_alert_status\<close>\<close>

definition py_flag :: "bool \<Rightarrow> int" where
  "py_flag b = (if b then 1 else 0)"

text \<open>\<open>UPDATE alerts SET ... WHERE image_path = ?\<close>, for the columns that it names.\<close>

definition sql_update ::
  "world \<Rightarrow> string list \<Rightarrow> string \<Rightarrow> (alert_row \<Rightarrow> alert_row) \<Rightarrow> exn + world" where
  "sql_update w names img_path f =
     (case db w of
        None \<Rightarrow> Inl ''no such table: alerts''
      | Some t \<Rightarrow>
          (case missing_column names t of
             Some c \<Rightarrow> Inl (''no such column: '' @ c)
           | None \<Rightarrow>
               Inr (w\<lparr>db := Some (t\<lparr>rows :=
                      map (\<lambda>r. if image_path r = img_path then f r else r) (rows t)\<rparr>)\<rparr>)))"

definition update_alert_status_try ::
  "storage_env \<Rightarrow> world \<Rightarrow> string \<Rightarrow> bool option \<Rightarrow> bool option \<Rightarrow> exn + world" where
  "update_alert_status_try env w img_path telegram_ok synced_arg =
     (case sqlite_error env of
        Some e \<Rightarrow> Inl e
      | None \<Rightarrow>
          (case (telegram_ok, synced_arg) of
             (None, None) \<Rightarrow> Inr w
           | (Some tg, Some sy) \<Rightarrow>
               sql_update w [''telegram_sent'', ''synced'', ''image_path''] img_path
                 (\<lambda>r. r\<lparr>telegram_sent := Some (py_flag tg), synced := Some (py_flag sy)\<rparr>)
           | (Some tg, None) \<Rightarrow>
               sql_update w [''telegram_sent'', ''image_path''] img_path
                 (\<lambda>r. r\<lparr>telegram_sent := Some (py_flag tg)\<rparr>)
           | (None, Some sy) \<Rightarrow>
               sql_update w [''synced'', ''image_path''] img_path
                 (\<lambda>r. r\<lparr>synced := Some (py_flag sy)\<rparr>)))"

definition update_alert_status ::
  "storage_env \<Rightarrow> world \<Rightarrow> string \<Rightarrow> bool option \<Rightarrow> bool option \<Rightarrow> (exn + unit) \<times> world" where
  "update_alert_status env w img_path telegram_ok synced_arg =
     (case update_alert_status_try env w img_path telegram_ok synced_arg of
        Inl e \<Rightarrow> (Inr (), print (''[SQLite update error] '' @ e) w)
      | Inr w' \<Rightarrow> (Inr (), w'))"

section \<open>Stores that the operations keep well-formed\<close>

text \<open>
  The constraints of the table (\<open>id\<close> is a key, \<open>image_path\<close> is \<open>UNIQUE\<close>), the
  bookkeeping of \<open>AUTOINCREMENT\<close> (no key beyond \<open>seq\<close>), and the flags never \<open>NULL\<close>
  in a table that has their columns: every statement of the program writes \<open>0\<close> or \<open>1\<close>
  there, and a column added by \<open>init_db\<close> starts at \<open>0\<close>.
\<close>

definition wf_table :: "alerts_table \<Rightarrow> bool" where
  "wf_table t =
     (distinct (map row_id (rows t)) \<and> distinct (map image_path (rows t)) \<and>
      list_all (\<lambda>r. row_id r \<le> seq t \<and>
                   (''synced'' \<in> set (columns t) \<longrightarrow> synced r \<noteq> None) \<and>
                   (''telegram_sent'' \<in> set (columns t) \<longrightarrow> telegram_sent r \<noteq> None))
        (rows t))"

definition wf_world :: "world \<Rightarrow> bool" where
  "wf_world w = (case db w of None \<Rightarrow> True | Some t \<Rightarrow> wf_table t)"

text \<open>
  The local insert of \<open>store_alert\<close> goes through: the database can be used, the table
  exists with the nine columns that the statement names, and a key is left.
\<close>

definition insert_ready :: "storage_env \<Rightarrow> world \<Rightarrow> bool" where
  "insert_ready env w =
     (sqlite_error env = None \<and>
      (case db w of
         None \<Rightarrow> False
       | Some t \<Rightarrow> missing_column insert_columns t = None \<and> largest_rowid t < max_rowid))"

text \<open>The rows of the store, none while there is no table.\<close>

definition rows_of :: "world \<Rightarrow> alert_row list" where
  "rows_of w = (case db w of None \<Rightarrow> [] | Some t \<Rightarrow> rows t)"

text \<open>
  The row that \<open>store_alert\<close> writes into the table \<open>t\<close> once the upload has given
  \<open>url\<close>: the values of the \<open>INSERT OR REPLACE\<close> statement, collected.
\<close>

definition new_row ::
  "storage_env \<Rightarrow> alerts_table \<Rightarrow> string \<Rightarrow> string \<Rightarrow> string option \<Rightarrow> alert_row" where
  "new_row env t lbl img_path url =
     \<lparr>row_id = largest_rowid t + 1, label = lbl, timestamp = now env, image_path = img_path,
      cloud_url = url, synced = Some (if truthy url then 1 else 0),
      telegram_sent = Some (coalesce0 (select_telegram_sent t img_path)),
      latitude = fst (geolocate env), longitude = fst (snd (geolocate env)),
      location = Some (snd (snd (geolocate env)))\<rparr>"

text \<open>The document that the remote mirror of \<open>store_alert\<close> writes.\<close>

definition mirror_doc :: "storage_env \<Rightarrow> string \<Rightarrow> string \<Rightarrow> string option \<Rightarrow> document" where
  "mirror_doc env lbl img_path url =
     \<lparr>doc_label = lbl, doc_timestamp = now env, doc_cloud_url = url,
      doc_local_path = img_path, doc_latitude = fst (geolocate env),
      doc_longitude = fst (snd (geolocate env)), doc_location = snd (snd (geolocate env))\<rparr>"

text \<open>
  The query of \<open>get_latest_alerts\<close> goes through: the database can be used and the table
  exists with the columns that the query names.
\<close>

definition select_ready :: "storage_env \<Rightarrow> world \<Rightarrow> bool" where
  "select_ready env w =
     (sqlite_error env = None \<and>
      (case db w of None \<Rightarrow> False | Some t \<Rightarrow> missing_column select_columns t = None))"

text \<open>
  What the \<open>UPDATE\<close> statements of \<open>update_alert_status\<close> do, collected: the columns
  that the statement for the given flags names, the change to a matching row, and the
  table after the statement.
\<close>

definition update_columns :: "bool option \<Rightarrow> bool option \<Rightarrow> string list" where
  "update_columns telegram_ok synced_arg =
     (case telegram_ok of None \<Rightarrow> [] | Some b \<Rightarrow> [''telegram_sent'']) @
     (case synced_arg of None \<Rightarrow> [] | Some b \<Rightarrow> [''synced'']) @ [''image_path'']"

definition set_flags :: "bool option \<Rightarrow> bool option \<Rightarrow> alert_row \<Rightarrow> alert_row" where
  "set_flags telegram_ok synced_arg r =
     r\<lparr>telegram_sent := (case telegram_ok of None \<Rightarrow> telegram_sent r | Some b \<Rightarrow> Some (py_flag b)),
       synced := (case synced_arg of None \<Rightarrow> synced r | Some b \<Rightarrow> Some (py_flag b))\<rparr>"

definition update_rows ::
  "string \<Rightarrow> bool option \<Rightarrow> bool option \<Rightarrow> alerts_table \<Rightarrow> alerts_table" where
  "update_rows p telegram_ok synced_arg t =
     t\<lparr>rows := map (\<lambda>r. if image_path r = p then set_flags telegram_ok synced_arg r else r)
                  (rows t)\<rparr>"


definition missing_upgrades :: "alerts_table \<Rightarrow> string list" where
  "missing_upgrades t = filter (\<lambda>c. c \<notin> set (columns t)) (map fst upgrades)"

definition upgraded :: "alerts_table \<Rightarrow> alerts_table" where
  "upgraded t =
     t\<lparr>columns := columns t @ missing_upgrades t,
       rows := map (fold column_default (missing_upgrades t)) (rows t)\<rparr>"

section \<open>Example runs\<close>

definition w0 :: world where
  "w0 = \<lparr>db = None, docs = [], printed = []\<rparr>"

text \<open>A bot token that the messaging endpoint rejects.\<close>

definition env_bad_token :: telegram_env where
  "env_bad_token =
     \<lparr>BOT_TOKEN = Some ''bad'', CHAT_ID = Some ''42'',
      open_rb = (\<lambda>p. Inr ''JPEG''),
      requests_post = (\<lambda>r. Inr \<lparr>status_code = 401, resp_text = ''Unauthorized''\<rparr>)\<rparr>"

text \<open>Surroundings in which every service answers.\<close>

definition env_ok :: storage_env where
  "env_ok =
     \<lparr>now = ''2024-01-01 10:00:00'',
      geocoder_ip = Inr \<lparr>latlng = Some [12, 77], city = Some ''Bengaluru''\<rparr>,
      upload = (\<lambda>file folder ctx.
                  Inr [''secure_url'' \<mapsto> ''https://img.example/a.jpg'',
                       ''public_id'' \<mapsto> ''wildlife_alerts/a'']),
      sqlite_error = None,
      firestore_db = True,
      firestore_set = (\<lambda>d. None)\<rparr>"

text \<open>A store with one alert whose notification has been delivered.\<close>

definition row_a :: alert_row where
  "row_a =
     \<lparr>row_id = 1, label = ''deer'', timestamp = ''2024-01-01 09:00:00'', image_path = ''a.jpg'',
      cloud_url = None, synced = Some 0, telegram_sent = Some 1,
      latitude = None, longitude = None, location = Some ''Unknown''\<rparr>"

definition w_sent :: world where
  "w_sent = \<lparr>db = Some \<lparr>columns = declared_columns, rows = [row_a], seq = 1\<rparr>,
             docs = [], printed = []\<rparr>"



text \<open>A geolocation service that cannot be reached.\<close>

definition env_geo_down :: storage_env where
  "env_geo_down = env_ok\<lparr>geocoder_ip := Inl ''HTTPSConnectionPool: max retries exceeded''\<rparr>"

text \<open>A remote store that is configured and whose write fails.\<close>

definition env_mirror_down :: storage_env where
  "env_mirror_down = env_ok\<lparr>firestore_set := (\<lambda>d. Some ''deadline exceeded'')\<rparr>"

text \<open>The store right after \<open>init_db\<close> on a new file, and after one, two and three alerts.\<close>

definition w_ready :: world where
  "w_ready = \<lparr>db = Some \<lparr>columns = declared_columns, rows = [], seq = 0\<rparr>,
              docs = [], printed = []\<rparr>"

definition w_one :: world where
  "w_one = snd (store_alert env_ok w_ready ''deer'' ''a.jpg'')"

definition w_two :: world where
  "w_two = snd (store_alert env_ok w_one ''boar'' ''b.jpg'')"

definition w_three :: world where
  "w_three = snd (store_alert env_ok w_two ''fox'' ''c.jpg'')"



section \<open>Properties of the notifier\<close>


text \<open>
  C4. \<open>send_alert\<close> returns true exactly when the image file opens and the endpoint
  answers the request with status 200. When the file cannot be opened, when the request
  raises, and when the answer has another status, it prints one line (the exception text,
  or the status and the body) and returns false. It never raises.
\<close>

theorem send_alert_true_iff_http_200:
  "(\<exists>b. fst (send_alert env w lbl ts p x) = Inr b) \<and>
   (fst (send_alert env w lbl ts p x) = Inr True \<longleftrightarrow>
      (\<exists>img resp. open_rb env p = Inr img \<and>
         requests_post env (photo_request env lbl ts x img) = Inr resp \<and>
         status_code resp = 200)) \<and>
   (\<forall>e. open_rb env p = Inl e \<longrightarrow>
      send_alert env w lbl ts p x = (Inr False, print (''[Telegram Exception] '' @ e) w)) \<and>
   (\<forall>img e. open_rb env p = Inr img \<and>
        requests_post env (photo_request env lbl ts x img) = Inl e \<longrightarrow>
      send_alert env w lbl ts p x = (Inr False, print (''[Telegram Exception] '' @ e) w)) \<and>
   (\<forall>img resp. open_rb env p = Inr img \<and>
        requests_post env (photo_request env lbl ts x img) = Inr resp \<and>
        status_code resp \<noteq> 200 \<longrightarrow>
      send_alert env w lbl ts p x =
        (Inr False,
         print (''[Telegram Error] '' @ py_int_str (status_code resp) @ '': '' @ resp_text resp) w))"
  by (auto simp: send_alert_def send_alert_try_def split: prod.splits sum.splits if_splits)

theorem send_alert_true_iff_http_200_witness:
  "send_alert env_bad_token w0 ''deer'' ''2024-01-01 10:00:00'' ''a.jpg'' None =
     (Inr False, \<lparr>db = None, docs = [], printed = [''[Telegram Error] 401: Unauthorized'']\<rparr>)"
  using send_alert_true_iff_http_200
          [of env_bad_token w0 "''deer''" "''2024-01-01 10:00:00''" "''a.jpg''" None]
  by (simp add: env_bad_token_def w0_def print_def py_int_str_def digits.simps)

section \<open>Properties of the record store\<close>

subsection \<open>Steps of \<open>store_alert\<close>\<close>

lemma db_print [simp]: "db (print l w) = db w"
  by (simp add: print_def)

lemma docs_print [simp]: "docs (print l w) = docs w"
  by (simp add: print_def)

lemma printed_print [simp]: "printed (print l w) = printed w @ [l]"
  by (simp add: print_def)

lemma upload_step_db [simp]: "db (snd (upload_step env w lbl ts p)) = db w"
  by (simp add: upload_step_def split: sum.splits)

lemma upload_step_docs [simp]: "docs (snd (upload_step env w lbl ts p)) = docs w"
  by (simp add: upload_step_def split: sum.splits)

lemma firebase_step_db [simp]: "db (firebase_step env w lbl ts p url la lo loc) = db w"
  by (simp add: firebase_step_def Let_def split: option.splits)

lemma store_alert_fst:
  "fst (store_alert env w lbl p) = Inr (fst (upload_step env w lbl (now env) p))"
  by (simp add: store_alert_def Let_def case_prod_beta)

lemma sqlite_step_db:
  "db (sqlite_step env w lbl ts p url la lo loc) =
     (case sqlite_error env of
        Some e \<Rightarrow> db w
      | None \<Rightarrow>
          (case db w of
             None \<Rightarrow> None
           | Some t \<Rightarrow>
               (case insert_or_replace t lbl ts p url la lo loc of
                  Inl e \<Rightarrow> Some t
                | Inr t' \<Rightarrow> Some t')))"
  by (simp add: sqlite_step_def sqlite_insert_try_def split: option.splits sum.splits)

lemma store_alert_db:
  "db (snd (store_alert env w lbl p)) =
     (case sqlite_error env of
        Some e \<Rightarrow> db w
      | None \<Rightarrow>
          (case db w of
             None \<Rightarrow> None
           | Some t \<Rightarrow>
               (case insert_or_replace t lbl (now env) p
                       (fst (fst (upload_step env w lbl (now env) p)))
                       (fst (geolocate env)) (fst (snd (geolocate env)))
                       (snd (snd (geolocate env))) of
                  Inl e \<Rightarrow> Some t
                | Inr t' \<Rightarrow> Some t')))"
  by (simp add: store_alert_def Let_def case_prod_beta sqlite_step_db cong: option.case_cong)

lemma store_alert_db_ready:
  assumes "insert_ready env w" and "db w = Some t"
  shows "db (snd (store_alert env w lbl p)) =
     Some (t\<lparr>rows := filter (\<lambda>r. image_path r \<noteq> p) (rows t) @
                 [new_row env t lbl p (fst (fst (upload_step env w lbl (now env) p)))],
             seq := largest_rowid t + 1\<rparr>)"
  using assms
  by (simp add: store_alert_db insert_or_replace_def
      insert_ready_def next_rowid_def new_row_def)


lemma upload_step_fst:
  "fst (upload_step env w lbl ts p) =
     (case upload env p ''wildlife_alerts'' [(''label'', lbl), (''timestamp'', ts)] of
        Inl e \<Rightarrow> (None, None)
      | Inr res \<Rightarrow> (res ''secure_url'', res ''public_id''))"
  by (simp add: upload_step_def split: sum.splits)

lemma find_unique_path:
  "distinct (map image_path rs) \<Longrightarrow> r \<in> set rs \<Longrightarrow>
   find (\<lambda>x. image_path x = image_path r) rs = Some r"
  by (induction rs) (auto simp: rev_image_eqI)

lemma filter_path_replaced:
  "image_path x = p \<Longrightarrow>
   filter (\<lambda>r. image_path r = p) (filter (\<lambda>r. image_path r \<noteq> p) rs @ [x]) = [x]"
  by (induction rs) auto

lemma rows_of_store_alert_ready:
  assumes "insert_ready env w" and "db w = Some t"
  shows "rows_of (snd (store_alert env w lbl p)) =
     filter (\<lambda>r. image_path r \<noteq> p) (rows t) @
       [new_row env t lbl p (fst (fst (upload_step env w lbl (now env) p)))]"
  by (simp add: rows_of_def store_alert_db_ready [OF assms])

lemma missing_column_None:
  "missing_column names t = None \<longleftrightarrow> set names \<subseteq> set (columns t)"
  by (auto simp: missing_column_def find_None_iff)

lemma insert_ready_table: "insert_ready env w \<Longrightarrow> \<exists>t. db w = Some t"
  by (auto simp: insert_ready_def split: option.splits)

lemma fold_max_ge: "(a::nat) \<le> fold max xs a"
proof (induction xs arbitrary: a)
  case Nil
  show ?case by simp
next
  case (Cons x xs)
  have "a \<le> max x a" by simp
  also have "\<dots> \<le> fold max xs (max x a)" by (rule Cons.IH)
  finally show ?case by simp
qed

lemma fold_max_mem: "(x::nat) \<in> set xs \<Longrightarrow> x \<le> fold max xs a"
proof (induction xs arbitrary: a)
  case Nil
  then show ?case by simp
next
  case (Cons y ys)
  show ?case
  proof (cases "x = y")
    case True
    have "x \<le> max y a" using True by simp
    also have "\<dots> \<le> fold max ys (max y a)" by (rule fold_max_ge)
    finally show ?thesis by simp
  next
    case False
    with Cons.prems have "x \<in> set ys" by simp
    from Cons.IH [OF this] show ?thesis by simp
  qed
qed

lemma row_id_le_largest: "r \<in> set (rows t) \<Longrightarrow> row_id r \<le> largest_rowid t"
  unfolding largest_rowid_def by (rule fold_max_mem) simp

lemma seq_le_largest: "seq t \<le> largest_rowid t"
  unfolding largest_rowid_def by (rule fold_max_ge)

lemma new_row_id_fresh: "r \<in> set (rows t) \<Longrightarrow> row_id r < row_id (new_row env t lbl p url)"
  using row_id_le_largest [of r t] by (simp add: new_row_def)

text \<open>
  C1. When the local insert goes through on a well-formed store, the store afterwards
  holds exactly one row with the given \<open>image_path\<close>; the row that held this path
  before is gone, and the new row carries its \<open>telegram_sent\<close> value; when no row held
  the path, \<open>telegram_sent\<close> is \<open>0\<close>.
\<close>

theorem store_alert_keeps_telegram_sent:
  assumes "insert_ready env w" and "wf_world w"
  shows "\<exists>r'. filter (\<lambda>r. image_path r = p) (rows_of (snd (store_alert env w lbl p))) = [r'] \<and>
           (\<forall>r \<in> set (rows_of w). image_path r = p \<longrightarrow>
              telegram_sent r' = telegram_sent r \<and> r \<notin> set (rows_of (snd (store_alert env w lbl p)))) \<and>
           ((\<forall>r \<in> set (rows_of w). image_path r \<noteq> p) \<longrightarrow> telegram_sent r' = Some 0)"
proof -
  from assms(1) obtain t where t: "db w = Some t"
    using insert_ready_table by blast
  let ?url = "fst (fst (upload_step env w lbl (now env) p))"
  let ?new = "new_row env t lbl p ?url"
  let ?w' = "snd (store_alert env w lbl p)"
  have rows': "rows_of ?w' = filter (\<lambda>r. image_path r \<noteq> p) (rows t) @ [?new]"
    by (rule rows_of_store_alert_ready [OF assms(1) t])
  have path: "image_path ?new = p"
    by (simp add: new_row_def)
  have one: "filter (\<lambda>r. image_path r = p) (rows_of ?w') = [?new]"
    unfolding rows' by (rule filter_path_replaced [OF path])
  from assms(2) t have wf: "wf_table t"
    by (simp add: wf_world_def)
  have kept: "telegram_sent ?new = telegram_sent r \<and> r \<notin> set (rows_of ?w')"
    if r: "r \<in> set (rows_of w)" "image_path r = p" for r
  proof -
    from r t have rin: "r \<in> set (rows t)"
      by (simp add: rows_of_def)
    from wf have "distinct (map image_path (rows t))"
      by (simp add: wf_table_def)
    from find_unique_path [OF this rin] r(2)
    have f: "find (\<lambda>x. image_path x = p) (rows t) = Some r"
      by simp
    from assms(1) t have "set insert_columns \<subseteq> set (columns t)"
      by (simp add: insert_ready_def missing_column_None)
    then have "''telegram_sent'' \<in> set (columns t)"
      by (simp add: insert_columns_def)
    with wf rin obtain v where v: "telegram_sent r = Some v"
      by (auto simp: wf_table_def list_all_iff)
    have same: "telegram_sent ?new = telegram_sent r"
      by (simp add: new_row_def select_telegram_sent_def f v coalesce0_def)
    from new_row_id_fresh [OF rin] have "r \<noteq> ?new"
      by auto
    with r(2) have "r \<notin> set (rows_of ?w')"
      unfolding rows' by simp
    with same show ?thesis ..
  qed
  have fresh: "telegram_sent ?new = Some 0" if "\<forall>r \<in> set (rows_of w). image_path r \<noteq> p"
  proof -
    from that t have "find (\<lambda>x. image_path x = p) (rows t) = None"
      by (simp add: rows_of_def find_None_iff)
    then show ?thesis
      by (simp add: new_row_def select_telegram_sent_def coalesce0_def)
  qed
  from one kept fresh show ?thesis
    by blast
qed


lemma insert_ready_w_sent: "insert_ready env_ok w_sent"
  by (simp add: insert_ready_def env_ok_def w_sent_def missing_column_def insert_columns_def
      declared_columns_def largest_rowid_def max_rowid_def row_a_def)

lemma wf_world_w_sent: "wf_world w_sent"
  by (simp add: wf_world_def wf_table_def w_sent_def row_a_def)

theorem store_alert_keeps_telegram_sent_witness:
  "insert_ready env_ok w_sent \<and> wf_world w_sent \<and>
   (\<exists>r'. filter (\<lambda>r. image_path r = ''a.jpg'')
            (rows_of (snd (store_alert env_ok w_sent ''deer'' ''a.jpg''))) = [r'] \<and>
          telegram_sent r' = Some 1)"
proof -
  have r: "row_a \<in> set (rows_of w_sent)" "image_path row_a = ''a.jpg''"
    "telegram_sent row_a = Some 1"
    by (simp_all add: rows_of_def w_sent_def row_a_def)
  from store_alert_keeps_telegram_sent [OF insert_ready_w_sent wf_world_w_sent, of "''a.jpg''" "''deer''"]
  obtain r' where "filter (\<lambda>r. image_path r = ''a.jpg'')
            (rows_of (snd (store_alert env_ok w_sent ''deer'' ''a.jpg''))) = [r']"
    and "\<forall>r \<in> set (rows_of w_sent). image_path r = ''a.jpg'' \<longrightarrow> telegram_sent r' = telegram_sent r"
    by blast
  with r insert_ready_w_sent wf_world_w_sent show ?thesis
    by metis
qed

subsection \<open>What \<open>store_alert\<close> returns and stores\<close>

lemma store_alert_returns:
  "fst (store_alert env w lbl p) =
     Inr (case upload env p ''wildlife_alerts'' [(''label'', lbl), (''timestamp'', now env)] of
            Inl e \<Rightarrow> (None, None)
          | Inr res \<Rightarrow> (res ''secure_url'', res ''public_id''))"
  by (simp add: store_alert_fst upload_step_fst)

lemma store_alert_row_ready:
  assumes "insert_ready env w"
  shows "\<exists>t. db w = Some t \<and>
     filter (\<lambda>r. image_path r = p) (rows_of (snd (store_alert env w lbl p))) =
       [new_row env t lbl p (fst (fst (upload_step env w lbl (now env) p)))]"
proof -
  from assms obtain t where t: "db w = Some t"
    using insert_ready_table by blast
  have "image_path (new_row env t lbl p (fst (fst (upload_step env w lbl (now env) p)))) = p"
    by (simp add: new_row_def)
  from filter_path_replaced [OF this] t show ?thesis
    by (simp add: rows_of_store_alert_ready [OF assms t])
qed





subsection \<open>Geolocation\<close>

lemma geolocate_raise: "geocoder_ip env = Inl e \<Longrightarrow> geolocate env = (None, None, ''Unknown'')"
  by (simp add: geolocate_def geolocate_try_def)

lemma geolocate_nothing:
  assumes "geocoder_ip env = Inr g" and "latlng g = None \<or> latlng g = Some []"
    and "\<not> truthy (city g)"
  shows "geolocate env = (None, None, ''Unknown'')"
  using assms
  by (auto simp: geolocate_def geolocate_try_def city_or_unknown_def truthy_def
      split: option.splits)

lemma geolocate_short:
  assumes "geocoder_ip env = Inr g" and "latlng g = Some [x]"
  shows "geolocate env = (None, None, ''Unknown'')"
  using assms by (simp add: geolocate_def geolocate_try_def list_index_def)

lemma store_alert_never_raises: "\<exists>r. fst (store_alert env w lbl p) = Inr r"
  by (simp add: store_alert_fst)

text \<open>
  C6. When the lookup raises, when it returns neither coordinates nor a city, and when
  its coordinate list is too short to be read, latitude and longitude are absent and the
  location is \<open>Unknown\<close>. \<open>store_alert\<close> returns whatever the lookup did, and the
  row it inserts holds these three values.
\<close>

theorem geolocation_failure_defaults:
  "(\<forall>e. geocoder_ip env = Inl e \<longrightarrow> geolocate env = (None, None, ''Unknown'')) \<and>
   (\<forall>g. geocoder_ip env = Inr g \<and> (latlng g = None \<or> latlng g = Some []) \<and>
        \<not> truthy (city g) \<longrightarrow> geolocate env = (None, None, ''Unknown'')) \<and>
   (\<forall>g x. geocoder_ip env = Inr g \<and> latlng g = Some [x] \<longrightarrow>
      geolocate env = (None, None, ''Unknown'')) \<and>
   (\<exists>r. fst (store_alert env w lbl p) = Inr r) \<and>
   (insert_ready env w \<longrightarrow>
      (\<exists>r'. filter (\<lambda>r. image_path r = p) (rows_of (snd (store_alert env w lbl p))) = [r'] \<and>
            (latitude r', longitude r', location r') =
              (fst (geolocate env), fst (snd (geolocate env)), Some (snd (snd (geolocate env))))))"
proof -
  have row: "\<exists>r'. filter (\<lambda>r. image_path r = p) (rows_of (snd (store_alert env w lbl p))) = [r'] \<and>
            (latitude r', longitude r', location r') =
              (fst (geolocate env), fst (snd (geolocate env)), Some (snd (snd (geolocate env))))"
    if "insert_ready env w"
  proof -
    from store_alert_row_ready [OF that, of p lbl] obtain t where
      "filter (\<lambda>r. image_path r = p) (rows_of (snd (store_alert env w lbl p))) =
         [new_row env t lbl p (fst (fst (upload_step env w lbl (now env) p)))]"
      by blast
    then show ?thesis
      by (simp add: new_row_def)
  qed
  from geolocate_raise geolocate_nothing geolocate_short store_alert_never_raises row
  show ?thesis
    by blast
qed

lemma insert_ready_geo_down: "insert_ready env_geo_down w_sent"
  by (simp add: insert_ready_def env_geo_down_def env_ok_def w_sent_def missing_column_def
      insert_columns_def declared_columns_def largest_rowid_def max_rowid_def row_a_def)

theorem geolocation_failure_defaults_witness:
  "insert_ready env_geo_down w_sent \<and>
   (\<exists>r'. filter (\<lambda>r. image_path r = ''b.jpg'')
            (rows_of (snd (store_alert env_geo_down w_sent ''deer'' ''b.jpg''))) = [r'] \<and>
          latitude r' = None \<and> longitude r' = None \<and> location r' = Some ''Unknown'')"
proof -
  have down: "geocoder_ip env_geo_down = Inl ''HTTPSConnectionPool: max retries exceeded''"
    by (simp add: env_geo_down_def)
  from geolocation_failure_defaults [of env_geo_down w_sent "''deer''" "''b.jpg''"] down
  have g: "geolocate env_geo_down = (None, None, ''Unknown'')"
    and "\<exists>r'. filter (\<lambda>r. image_path r = ''b.jpg'')
            (rows_of (snd (store_alert env_geo_down w_sent ''deer'' ''b.jpg''))) = [r'] \<and>
            (latitude r', longitude r', location r') =
              (fst (geolocate env_geo_down), fst (snd (geolocate env_geo_down)),
               Some (snd (snd (geolocate env_geo_down))))"
    using insert_ready_geo_down by blast+
  then show ?thesis
    using insert_ready_geo_down by simp
qed

subsection \<open>The remote mirror\<close>

lemma store_alert_snd:
  "snd (store_alert env w lbl p) =
     firebase_step env
       (sqlite_step env (snd (upload_step env w lbl (now env) p)) lbl (now env) p
          (fst (fst (upload_step env w lbl (now env) p)))
          (fst (geolocate env)) (fst (snd (geolocate env))) (snd (snd (geolocate env))))
       lbl (now env) p (fst (fst (upload_step env w lbl (now env) p)))
       (fst (geolocate env)) (fst (snd (geolocate env))) (snd (snd (geolocate env)))"
  by (simp add: store_alert_def Let_def case_prod_beta)

lemma upload_step_printed:
  "\<exists>l. printed (snd (upload_step env w lbl ts p)) = printed w @ [l] \<and> \<not> prefix ''[Firebase'' l"
  by (simp add: upload_step_def split: sum.splits)

lemma sqlite_step_docs [simp]: "docs (sqlite_step env w lbl ts p url la lo loc) = docs w"
  by (simp add: sqlite_step_def sqlite_insert_try_def split: option.splits sum.splits)

lemma sqlite_step_printed:
  "\<exists>ls. printed (sqlite_step env w lbl ts p url la lo loc) = printed w @ ls \<and>
        (\<forall>l \<in> set ls. \<not> prefix ''[Firebase'' l)"
proof (cases "sqlite_insert_try env w lbl ts p url la lo loc")
  case (Inl e)
  then have "printed (sqlite_step env w lbl ts p url la lo loc) = printed w @ [''[SQLite Error] '' @ e]"
    by (simp add: sqlite_step_def)
  then show ?thesis
    by simp
next
  case (Inr w')
  then have "printed w' = printed w"
    by (auto simp: sqlite_insert_try_def split: option.splits sum.splits)
  with Inr have "printed (sqlite_step env w lbl ts p url la lo loc) = printed w @ []"
    by (simp add: sqlite_step_def)
  then show ?thesis
    by (metis empty_iff list.set(1))
qed

lemma firebase_step_printed:
  "printed (firebase_step env w lbl ts p url la lo loc) =
     printed w @
       (if firestore_db env \<and> truthy url then
          [case firestore_set env \<lparr>doc_label = lbl, doc_timestamp = ts, doc_cloud_url = url,
                    doc_local_path = p, doc_latitude = la, doc_longitude = lo,
                    doc_location = loc\<rparr> of
             Some e \<Rightarrow> ''[Firebase Error] '' @ e
           | None \<Rightarrow> ''[Firebase] Alert stored for '' @ lbl]
        else [])"
  by (simp add: firebase_step_def Let_def split: option.splits)

lemma firebase_step_docs:
  "docs (firebase_step env w lbl ts p url la lo loc) =
     (if firestore_db env \<and> truthy url \<and>
         firestore_set env \<lparr>doc_label = lbl, doc_timestamp = ts, doc_cloud_url = url,
                    doc_local_path = p, doc_latitude = la, doc_longitude = lo,
                    doc_location = loc\<rparr> = None
      then docs w @ [\<lparr>doc_label = lbl, doc_timestamp = ts, doc_cloud_url = url,
                    doc_local_path = p, doc_latitude = la, doc_longitude = lo,
                    doc_location = loc\<rparr>]
      else docs w)"
  by (auto simp: firebase_step_def Let_def split: option.splits)

lemma mirror_line_prefix:
  "prefix ''[Firebase'' (case x of Some e \<Rightarrow> ''[Firebase Error] '' @ e
                         | None \<Rightarrow> ''[Firebase] Alert stored for '' @ lbl)"
  by (simp split: option.splits)

lemma store_alert_docs:
  assumes "fst (store_alert env w lbl p) = Inr (url, pid)"
  shows "docs (snd (store_alert env w lbl p)) =
     (if firestore_db env \<and> truthy url \<and> firestore_set env (mirror_doc env lbl p url) = None
      then docs w @ [mirror_doc env lbl p url] else docs w)"
proof -
  from assms have url: "fst (fst (upload_step env w lbl (now env) p)) = url"
    by (simp add: store_alert_fst)
  show ?thesis
    unfolding store_alert_snd firebase_step_docs url mirror_doc_def by simp
qed

lemma store_alert_printed:
  assumes "fst (store_alert env w lbl p) = Inr (url, pid)"
  shows "\<exists>ls. printed (snd (store_alert env w lbl p)) =
           printed w @ ls @
             (if firestore_db env \<and> truthy url then
                [case firestore_set env (mirror_doc env lbl p url) of
                   Some e \<Rightarrow> ''[Firebase Error] '' @ e
                 | None \<Rightarrow> ''[Firebase] Alert stored for '' @ lbl]
              else []) \<and>
           (\<forall>l \<in> set ls. \<not> prefix ''[Firebase'' l)"
proof -
  from assms have url: "fst (fst (upload_step env w lbl (now env) p)) = url"
    by (simp add: store_alert_fst)
  obtain l where l: "printed (snd (upload_step env w lbl (now env) p)) = printed w @ [l]"
    "\<not> prefix ''[Firebase'' l"
    using upload_step_printed by blast
  obtain ls where ls: "printed (sqlite_step env (snd (upload_step env w lbl (now env) p)) lbl (now env) p
          url (fst (geolocate env)) (fst (snd (geolocate env))) (snd (snd (geolocate env)))) =
        printed (snd (upload_step env w lbl (now env) p)) @ ls"
    "\<forall>l \<in> set ls. \<not> prefix ''[Firebase'' l"
    using sqlite_step_printed by blast
  have "printed (snd (store_alert env w lbl p)) =
           printed w @ (l # ls) @
             (if firestore_db env \<and> truthy url then
                [case firestore_set env (mirror_doc env lbl p url) of
                   Some e \<Rightarrow> ''[Firebase Error] '' @ e
                 | None \<Rightarrow> ''[Firebase] Alert stored for '' @ lbl]
              else [])"
    unfolding store_alert_snd firebase_step_printed url ls(1) l(1) mirror_doc_def by simp
  moreover have "\<forall>x \<in> set (l # ls). \<not> prefix ''[Firebase'' x"
    using l(2) ls(2) by simp
  ultimately show ?thesis
    by blast
qed

lemma geolocate_mirror_free [simp]:
  "geolocate (env\<lparr>firestore_db := c, firestore_set := f\<rparr>) = geolocate env"
  by (simp add: geolocate_def geolocate_try_def)

lemma upload_step_mirror_free [simp]:
  "fst (upload_step (env\<lparr>firestore_db := c, firestore_set := f\<rparr>) w lbl ts p) =
   fst (upload_step env w lbl ts p)"
  by (simp add: upload_step_fst)

lemma store_alert_db_mirror_free:
  "db (snd (store_alert (env\<lparr>firestore_db := c, firestore_set := f\<rparr>) w lbl p)) =
   db (snd (store_alert env w lbl p))"
  by (simp add: store_alert_db cong: option.case_cong sum.case_cong)

text \<open>
  C5. With \<open>url\<close> the cloud URL that the call returns: the call prints a line of the
  mirror step (\<open>[Firebase] ...\<close> or \<open>[Firebase Error] ...\<close>) exactly when the client is
  set and \<open>url\<close> is present and not empty; the remote collection grows by the document
  exactly when, moreover, the write succeeds; a write that raises is printed as the last
  line and the call still returns; the local store after the call is the same whatever
  the client and the outcome of the write are; and when the local insert goes through,
  its row is there after the call.
\<close>

theorem mirror_iff_client_and_url:
  assumes "fst (store_alert env w lbl p) = Inr (url, pid)"
  shows
   "((\<exists>l \<in> set (drop (length (printed w)) (printed (snd (store_alert env w lbl p)))).
        prefix ''[Firebase'' l) \<longleftrightarrow> firestore_db env \<and> truthy url) \<and>
    docs (snd (store_alert env w lbl p)) =
      (if firestore_db env \<and> truthy url \<and> firestore_set env (mirror_doc env lbl p url) = None
       then docs w @ [mirror_doc env lbl p url] else docs w) \<and>
    (\<forall>e. firestore_db env \<and> truthy url \<and>
         firestore_set env (mirror_doc env lbl p url) = Some e \<longrightarrow>
       last (printed (snd (store_alert env w lbl p))) = ''[Firebase Error] '' @ e) \<and>
    db (snd (store_alert env w lbl p)) =
      db (snd (store_alert (env\<lparr>firestore_db := c, firestore_set := f\<rparr>) w lbl p)) \<and>
    (insert_ready env w \<longrightarrow>
       (\<exists>r'. filter (\<lambda>r. image_path r = p) (rows_of (snd (store_alert env w lbl p))) = [r']))"
proof -
  let ?w' = "snd (store_alert env w lbl p)"
  let ?line = "case firestore_set env (mirror_doc env lbl p url) of
                   Some e \<Rightarrow> ''[Firebase Error] '' @ e
                 | None \<Rightarrow> ''[Firebase] Alert stored for '' @ lbl"
  from store_alert_printed [OF assms] obtain ls where
    pr: "printed ?w' = printed w @ ls @ (if firestore_db env \<and> truthy url then [?line] else [])"
    and ls: "\<forall>l \<in> set ls. \<not> prefix ''[Firebase'' l"
    by blast
  have new: "drop (length (printed w)) (printed ?w') =
      ls @ (if firestore_db env \<and> truthy url then [?line] else [])"
    unfolding pr by simp
  have a: "(\<exists>l \<in> set (drop (length (printed w)) (printed ?w')). prefix ''[Firebase'' l) \<longleftrightarrow>
      firestore_db env \<and> truthy url"
    unfolding new using ls mirror_line_prefix [where x = "firestore_set env (mirror_doc env lbl p url)" and lbl = lbl]
    by auto
  have b: "last (printed ?w') = ''[Firebase Error] '' @ e"
    if "firestore_db env \<and> truthy url \<and> firestore_set env (mirror_doc env lbl p url) = Some e" for e
    unfolding pr using that by simp
  have d: "\<exists>r'. filter (\<lambda>r. image_path r = p) (rows_of ?w') = [r']" if "insert_ready env w"
    using store_alert_row_ready [OF that, of p lbl] by blast
  from a store_alert_docs [OF assms] b store_alert_db_mirror_free [where env = env and c = c and f = f and w = w and lbl = lbl and p = p] d
  show ?thesis
    by simp
qed

lemma insert_ready_mirror_down: "insert_ready env_mirror_down w_sent"
  by (simp add: insert_ready_def env_mirror_down_def env_ok_def w_sent_def missing_column_def
      insert_columns_def declared_columns_def largest_rowid_def max_rowid_def row_a_def)

lemma returns_mirror_down:
  "fst (store_alert env_mirror_down w_sent ''deer'' ''b.jpg'') =
     Inr (Some ''https://img.example/a.jpg'', Some ''wildlife_alerts/a'')"
  by (simp add: store_alert_returns env_mirror_down_def env_ok_def)

theorem mirror_iff_client_and_url_witness:
  "fst (store_alert env_mirror_down w_sent ''deer'' ''b.jpg'') =
     Inr (Some ''https://img.example/a.jpg'', Some ''wildlife_alerts/a'') \<and>
   insert_ready env_mirror_down w_sent \<and>
   docs (snd (store_alert env_mirror_down w_sent ''deer'' ''b.jpg'')) = [] \<and>
   last (printed (snd (store_alert env_mirror_down w_sent ''deer'' ''b.jpg''))) =
     ''[Firebase Error] deadline exceeded'' \<and>
   (\<exists>r'. filter (\<lambda>r. image_path r = ''b.jpg'')
            (rows_of (snd (store_alert env_mirror_down w_sent ''deer'' ''b.jpg''))) = [r'])"
proof -
  have cfg: "firestore_db env_mirror_down" "truthy (Some ''https://img.example/a.jpg'')"
    "firestore_set env_mirror_down
       (mirror_doc env_mirror_down ''deer'' ''b.jpg'' (Some ''https://img.example/a.jpg'')) =
     Some ''deadline exceeded''"
    "docs w_sent = []"
    by (simp_all add: env_mirror_down_def env_ok_def truthy_def w_sent_def)
  from mirror_iff_client_and_url [OF returns_mirror_down] cfg insert_ready_mirror_down
    returns_mirror_down
  show ?thesis
    by auto
qed

subsection \<open>Reading back: \<open>get_latest_alerts\<close>\<close>





lemma order_by_id_desc_set [simp]: "set (order_by_id_desc rs) = set rs"
  by (simp add: order_by_id_desc_def)

lemma order_by_id_desc_length [simp]: "length (order_by_id_desc rs) = length rs"
  by (simp add: order_by_id_desc_def)


lemma get_latest_alerts_ready:
  assumes "select_ready env w"
  shows "get_latest_alerts env w n =
           (Inr (map project (sql_limit n (order_by_id_desc (rows_of w)))), w)"
  using assms
  by (auto simp: select_ready_def get_latest_alerts_def rows_of_def split: option.splits)







lemma insert_or_replace_columns:
  "insert_or_replace t lbl ts p url la lo loc = Inr t' \<Longrightarrow> columns t' = columns t"
  by (auto simp: insert_or_replace_def split: option.splits sum.splits)

lemma store_alert_columns:
  "map_option columns (db (snd (store_alert env w lbl p))) = map_option columns (db w)"
  by (auto simp: store_alert_db insert_or_replace_columns split: option.splits sum.splits)

lemma select_ready_columns:
  "select_ready env w =
     (sqlite_error env = None \<and>
      (case map_option columns (db w) of
         None \<Rightarrow> False
       | Some cs \<Rightarrow> find (\<lambda>c. c \<notin> set cs) select_columns = None))"
  by (simp add: select_ready_def missing_column_def split: option.splits)

lemma select_ready_store_alert:
  "select_ready env' w \<Longrightarrow> select_ready env' (snd (store_alert env w lbl p))"
  by (simp add: select_ready_columns store_alert_columns)

lemma fold_max_bound: "\<forall>x \<in> set xs. x \<le> a \<Longrightarrow> fold max xs a = a" for a :: nat
  by (induction xs) (simp_all add: max_absorb2)

lemma insert_ready_store_alert:
  assumes "insert_ready env w" and "db w = Some t" and "sqlite_error env' = None"
    and "largest_rowid t + 1 < max_rowid"
  shows "insert_ready env' (snd (store_alert env w lbl p))"
proof -
  let ?new = "new_row env t lbl p (fst (fst (upload_step env w lbl (now env) p)))"
  let ?t' = "t\<lparr>rows := filter (\<lambda>r. image_path r \<noteq> p) (rows t) @ [?new],
               seq := largest_rowid t + 1\<rparr>"
  have db': "db (snd (store_alert env w lbl p)) = Some ?t'"
    by (rule store_alert_db_ready [OF assms(1,2)])
  have "\<forall>x \<in> set (map row_id (rows ?t')). x \<le> largest_rowid t + 1"
    using row_id_le_largest [of _ t] by (auto simp: new_row_def le_SucI)
  then have "largest_rowid ?t' = largest_rowid t + 1"
    unfolding largest_rowid_def [of ?t'] by (simp add: fold_max_bound)
  with assms db' show ?thesis
    by (simp add: insert_ready_def missing_column_def)
qed


lemmas insert_run_defs =
  store_alert_db upload_step_fst geolocate_def geolocate_try_def list_index_def
  city_or_unknown_def insert_or_replace_def missing_column_def insert_columns_def
  declared_columns_def next_rowid_def largest_rowid_def max_rowid_def truthy_def coalesce0_def
  select_telegram_sent_def

lemma db_w_one:
  "db w_one = Some \<lparr>columns = declared_columns,
      rows = [\<lparr>row_id = 1, label = ''deer'', timestamp = ''2024-01-01 10:00:00'',
               image_path = ''a.jpg'', cloud_url = Some ''https://img.example/a.jpg'',
               synced = Some 1, telegram_sent = Some 0, latitude = Some 12,
               longitude = Some 77, location = Some ''Bengaluru''\<rparr>],
      seq = 1\<rparr>"
  by (simp add: w_one_def w_ready_def env_ok_def insert_run_defs)

lemma db_w_two:
  "db w_two = Some \<lparr>columns = declared_columns,
      rows = [\<lparr>row_id = 1, label = ''deer'', timestamp = ''2024-01-01 10:00:00'',
               image_path = ''a.jpg'', cloud_url = Some ''https://img.example/a.jpg'',
               synced = Some 1, telegram_sent = Some 0, latitude = Some 12,
               longitude = Some 77, location = Some ''Bengaluru''\<rparr>,
              \<lparr>row_id = 2, label = ''boar'', timestamp = ''2024-01-01 10:00:00'',
               image_path = ''b.jpg'', cloud_url = Some ''https://img.example/a.jpg'',
               synced = Some 1, telegram_sent = Some 0, latitude = Some 12,
               longitude = Some 77, location = Some ''Bengaluru''\<rparr>],
      seq = 2\<rparr>"
  by (simp add: w_two_def db_w_one env_ok_def insert_run_defs)





lemma select_ready_w_three: "select_ready env_ok w_three"
  unfolding w_three_def
  by (rule select_ready_store_alert)
     (simp add: select_ready_def db_w_two env_ok_def missing_column_def select_columns_def
        declared_columns_def)




lemma three_alerts_latest_two:
  "fst (get_latest_alerts env_ok w_three 2) =
     Inr [(''fox'', ''2024-01-01 10:00:00'', Some ''https://img.example/a.jpg'',
           Some 12, Some 77, Some ''Bengaluru''),
          (''boar'', ''2024-01-01 10:00:00'', Some ''https://img.example/a.jpg'',
           Some 12, Some 77, Some ''Bengaluru'')]"
proof -
  have "rows_of w_three =
      [\<lparr>row_id = 1, label = ''deer'', timestamp = ''2024-01-01 10:00:00'',
               image_path = ''a.jpg'', cloud_url = Some ''https://img.example/a.jpg'',
               synced = Some 1, telegram_sent = Some 0, latitude = Some 12,
               longitude = Some 77, location = Some ''Bengaluru''\<rparr>,
       \<lparr>row_id = 2, label = ''boar'', timestamp = ''2024-01-01 10:00:00'',
               image_path = ''b.jpg'', cloud_url = Some ''https://img.example/a.jpg'',
               synced = Some 1, telegram_sent = Some 0, latitude = Some 12,
               longitude = Some 77, location = Some ''Bengaluru''\<rparr>,
       \<lparr>row_id = 3, label = ''fox'', timestamp = ''2024-01-01 10:00:00'',
               image_path = ''c.jpg'', cloud_url = Some ''https://img.example/a.jpg'',
               synced = Some 1, telegram_sent = Some 0, latitude = Some 12,
               longitude = Some 77, location = Some ''Bengaluru''\<rparr>]"
    by (simp add: rows_of_def w_three_def db_w_two env_ok_def insert_run_defs)
  then show ?thesis
    by (simp add: get_latest_alerts_ready [OF select_ready_w_three] sql_limit_def
        order_by_id_desc_def project_def)
qed

subsection \<open>Status flags: \<open>update_alert_status\<close>\<close>


lemma update_alert_status_try_cases:
  "update_alert_status_try env w p tg sy =
     (case sqlite_error env of
        Some e \<Rightarrow> Inl e
      | None \<Rightarrow>
          if tg = None \<and> sy = None then Inr w
          else (case db w of
                  None \<Rightarrow> Inl ''no such table: alerts''
                | Some t \<Rightarrow>
                    (case missing_column (update_columns tg sy) t of
                       Some c \<Rightarrow> Inl (''no such column: '' @ c)
                     | None \<Rightarrow> Inr (w\<lparr>db := Some (update_rows p tg sy t)\<rparr>))))"
  by (cases tg; cases sy)
     (simp_all add: update_alert_status_try_def sql_update_def update_columns_def update_rows_def
        set_flags_def split: option.splits)

lemma set_flags_none [simp]: "set_flags None None r = r"
  by (cases r) (simp add: set_flags_def)

lemma update_rows_none [simp]: "update_rows p None None t = t"
  by (simp add: update_rows_def cong: if_cong)


lemma update_alert_status_snd:
  "snd (update_alert_status env w p tg sy) =
     (case update_alert_status_try env w p tg sy of
        Inl e \<Rightarrow> print (''[SQLite update error] '' @ e) w
      | Inr w' \<Rightarrow> w')"
  by (simp add: update_alert_status_def split: sum.splits)

lemma update_alert_status_db:
  "db (snd (update_alert_status env w p tg sy)) = db w \<or>
   (\<exists>t. db w = Some t \<and> db (snd (update_alert_status env w p tg sy)) = Some (update_rows p tg sy t))"
  by (auto simp: update_alert_status_snd update_alert_status_try_cases split: option.splits)





subsection \<open>Schema management: \<open>init_db\<close>\<close>

lemma add_missing_ok:
  assumes "db w = Some t" and "distinct (map fst us)"
    and "\<forall>c \<in> set (map fst us). c \<in> set (columns t) \<longrightarrow> c \<in> set cols"
  shows "add_missing cols us w =
     (Inr (),
      w\<lparr>db := Some (t\<lparr>columns := columns t @ filter (\<lambda>c. c \<notin> set cols) (map fst us),
                       rows := map (fold column_default (filter (\<lambda>c. c \<notin> set cols) (map fst us)))
                                 (rows t)\<rparr>),
        printed := printed w @
          map (\<lambda>c. ''[DB Upgrade] Added missing column: '' @ c)
            (filter (\<lambda>c. c \<notin> set cols) (map fst us))\<rparr>)"
  using assms
proof (induction us arbitrary: w t)
  case Nil
  then show ?case by simp
next
  case (Cons u us)
  obtain col ty where u: "u = (col, ty)"
    by (cases u)
  show ?case
  proof (cases "col \<in> set cols")
    case True
    with Cons.prems u have "add_missing cols (u # us) w = add_missing cols us w"
      by simp
    also have "\<dots> = (Inr (),
      w\<lparr>db := Some (t\<lparr>columns := columns t @ filter (\<lambda>c. c \<notin> set cols) (map fst us),
                       rows := map (fold column_default (filter (\<lambda>c. c \<notin> set cols) (map fst us)))
                                 (rows t)\<rparr>),
        printed := printed w @
          map (\<lambda>c. ''[DB Upgrade] Added missing column: '' @ c)
            (filter (\<lambda>c. c \<notin> set cols) (map fst us))\<rparr>)"
      using Cons.prems by (intro Cons.IH) simp_all
    finally show ?thesis
      using True u by simp
  next
    case False
    with Cons.prems u have fresh: "col \<notin> set (columns t)"
      by auto
    let ?t1 = "t\<lparr>columns := columns t @ [col], rows := map (column_default col) (rows t)\<rparr>"
    let ?w1 = "print (''[DB Upgrade] Added missing column: '' @ col) (w\<lparr>db := Some ?t1\<rparr>)"
    from fresh Cons.prems(1) have add: "add_column col w = Inr (w\<lparr>db := Some ?t1\<rparr>)"
      by (simp add: add_column_def)
    with False u have step: "add_missing cols (u # us) w = add_missing cols us ?w1"
      by simp
    have db1: "db ?w1 = Some ?t1"
      by simp
    from Cons.prems(2) u have d: "distinct (map fst us)" and nin: "col \<notin> set (map fst us)"
      by simp_all
    have pre: "\<forall>c \<in> set (map fst us). c \<in> set (columns ?t1) \<longrightarrow> c \<in> set cols"
      using Cons.prems(3) nin by auto
    from Cons.IH [OF db1 d pre] step False u show ?thesis
      by (simp add: print_def comp_def)
  qed
qed


lemma distinct_upgrades: "distinct (map fst upgrades)"
  by (simp add: upgrades_def)

lemma init_db_ok:
  assumes "sqlite_error env = None"
  shows "init_db env w =
     (Inr (),
      w\<lparr>db := Some (upgraded (create_table_if_not_exists (db w))),
        printed := printed w @
          map (\<lambda>c. ''[DB Upgrade] Added missing column: '' @ c)
            (missing_upgrades (create_table_if_not_exists (db w))) @
          [''[DB] Alerts table ready with columns: '' @
             py_repr_list (columns (create_table_if_not_exists (db w)) @ map fst upgrades)]\<rparr>)"
proof -
  let ?t = "create_table_if_not_exists (db w)"
  have "db (w\<lparr>db := Some ?t\<rparr>) = Some ?t"
    by simp
  from add_missing_ok [OF this distinct_upgrades, of "columns ?t"]
  have "add_missing (columns ?t) upgrades (w\<lparr>db := Some ?t\<rparr>) =
     (Inr (),
      w\<lparr>db := Some (upgraded ?t),
        printed := printed w @
          map (\<lambda>c. ''[DB Upgrade] Added missing column: '' @ c) (missing_upgrades ?t)\<rparr>)"
    by (simp add: upgraded_def missing_upgrades_def)
  with assms show ?thesis
    by (simp add: init_db_def Let_def print_def)
qed

lemma missing_upgrades_upgraded [simp]: "missing_upgrades (upgraded t) = []"
  by (auto simp: missing_upgrades_def upgraded_def filter_empty_conv)

lemma upgraded_complete: "missing_upgrades t = [] \<Longrightarrow> upgraded t = t"
  by (simp add: upgraded_def)

lemma upgraded_idem [simp]: "upgraded (upgraded t) = upgraded t"
  by (simp add: upgraded_complete)

lemma missing_upgrades_new: "missing_upgrades \<lparr>columns = declared_columns, rows = [], seq = 0\<rparr> = []"
  by (simp add: missing_upgrades_def declared_columns_def upgrades_def)







section \<open>Which operations can raise\<close>











lemma init_db_down: "sqlite_error env = Some e \<Longrightarrow> init_db env w = (Inl e, w)"
  by (simp add: init_db_def)








section \<open>The operations keep the store well-formed\<close>

text \<open>
  A file without the table is well-formed, and every operation takes a well-formed store
  to a well-formed store, whatever the services do. After \<open>init_db\<close> on a new file the
  insert and the query go through.
\<close>

lemma wf_world_w0: "wf_world w0"
  by (simp add: wf_world_def w0_def)

lemma send_alert_db [simp]: "db (snd (send_alert tenv w lbl ts p x)) = db w"
  by (auto simp: send_alert_def send_alert_try_def split: sum.splits)

lemma send_alert_docs [simp]: "docs (snd (send_alert tenv w lbl ts p x)) = docs w"
  by (auto simp: send_alert_def send_alert_try_def split: sum.splits)

lemma wf_world_send_alert: "wf_world w \<Longrightarrow> wf_world (snd (send_alert tenv w lbl ts p x))"
  by (simp add: wf_world_def)

lemma distinct_filter_snoc:
  assumes "distinct (map f xs)" and "\<forall>x \<in> set (filter P xs). f x \<noteq> f y"
  shows "distinct (map f (filter P xs @ [y]))"
  using assms by (auto simp: distinct_map_filter)

lemma wf_insert_or_replace:
  assumes "wf_table t" and "insert_or_replace t lbl ts p url la lo loc = Inr t'"
  shows "wf_table t'"
proof -
  let ?keep = "filter (\<lambda>r. image_path r \<noteq> p) (rows t)"
  from assms(2) obtain new where
    t': "t' = t\<lparr>rows := ?keep @ [new], seq := largest_rowid t + 1\<rparr>"
    and new: "row_id new = largest_rowid t + 1" "image_path new = p"
      "synced new \<noteq> None" "telegram_sent new \<noteq> None"
    by (auto simp: insert_or_replace_def next_rowid_def split: option.splits if_splits)
  from assms(1) have d: "distinct (map row_id (rows t))" "distinct (map image_path (rows t))"
    and old: "list_all (\<lambda>r. row_id r \<le> seq t \<and>
                   (''synced'' \<in> set (columns t) \<longrightarrow> synced r \<noteq> None) \<and>
                   (''telegram_sent'' \<in> set (columns t) \<longrightarrow> telegram_sent r \<noteq> None)) (rows t)"
    by (simp_all add: wf_table_def)
  have below: "\<forall>r \<in> set ?keep. row_id r \<noteq> row_id new"
    using row_id_le_largest [of _ t] new(1) by fastforce
  have ids: "distinct (map row_id (?keep @ [new]))"
    by (rule distinct_filter_snoc [OF d(1) below])
  have paths: "distinct (map image_path (?keep @ [new]))"
    by (rule distinct_filter_snoc [OF d(2)]) (simp add: new(2))
  have "list_all (\<lambda>r. row_id r \<le> largest_rowid t + 1 \<and>
                   (''synced'' \<in> set (columns t) \<longrightarrow> synced r \<noteq> None) \<and>
                   (''telegram_sent'' \<in> set (columns t) \<longrightarrow> telegram_sent r \<noteq> None))
          (?keep @ [new])"
    using old new row_id_le_largest [of _ t] by (auto simp: list_all_iff le_SucI)
  with ids paths show ?thesis
    by (simp add: t' wf_table_def)
qed

lemma wf_world_store_alert:
  assumes "wf_world w"
  shows "wf_world (snd (store_alert env w lbl p))"
  using assms wf_insert_or_replace
  by (auto simp: wf_world_def store_alert_db split: option.splits sum.splits)

lemma set_flags_fields [simp]:
  "row_id (set_flags tg sy r) = row_id r" "image_path (set_flags tg sy r) = image_path r"
  by (simp_all add: set_flags_def)

lemma wf_update_rows:
  assumes "wf_table t"
  shows "wf_table (update_rows p tg sy t)"
proof -
  let ?f = "\<lambda>r. if image_path r = p then set_flags tg sy r else r"
  have "map row_id (map ?f (rows t)) = map row_id (rows t)"
    and "map image_path (map ?f (rows t)) = map image_path (rows t)"
    by simp_all
  moreover have "list_all (\<lambda>r. row_id r \<le> seq t \<and>
                   (''synced'' \<in> set (columns t) \<longrightarrow> synced r \<noteq> None) \<and>
                   (''telegram_sent'' \<in> set (columns t) \<longrightarrow> telegram_sent r \<noteq> None))
          (map ?f (rows t))"
    using assms by (auto simp: wf_table_def list_all_iff set_flags_def split: option.splits)
  ultimately show ?thesis
    using assms by (simp add: wf_table_def update_rows_def del: map_map)
qed

lemma wf_world_update_alert_status:
  assumes "wf_world w"
  shows "wf_world (snd (update_alert_status env w p tg sy))"
  using assms update_alert_status_db [of env w p tg sy] wf_update_rows
  by (auto simp: wf_world_def split: option.splits)

lemma fold_column_default_fields:
  "row_id (fold column_default cs r) = row_id r"
  "image_path (fold column_default cs r) = image_path r"
  "synced (fold column_default cs r) = (if ''synced'' \<in> set cs then Some 0 else synced r)"
  "telegram_sent (fold column_default cs r) =
     (if ''telegram_sent'' \<in> set cs then Some 0 else telegram_sent r)"
  by (induction cs arbitrary: r; simp add: column_default_def)+

lemma wf_upgraded:
  assumes "wf_table t"
  shows "wf_table (upgraded t)"
proof -
  let ?ms = "missing_upgrades t"
  let ?f = "fold column_default ?ms"
  have ids: "map row_id (map ?f (rows t)) = map row_id (rows t)"
    and paths: "map image_path (map ?f (rows t)) = map image_path (rows t)"
    by (simp_all add: fold_column_default_fields)
  have in_ms: "c \<in> set ?ms \<longleftrightarrow> c \<in> set (map fst upgrades) \<and> c \<notin> set (columns t)" for c
    by (auto simp: missing_upgrades_def)
  have "list_all (\<lambda>r. row_id r \<le> seq t \<and>
                   (''synced'' \<in> set (columns t @ ?ms) \<longrightarrow> synced r \<noteq> None) \<and>
                   (''telegram_sent'' \<in> set (columns t @ ?ms) \<longrightarrow> telegram_sent r \<noteq> None))
          (map ?f (rows t))"
    using assms by (auto simp: wf_table_def list_all_iff fold_column_default_fields in_ms)
  with ids paths assms show ?thesis
    by (simp add: wf_table_def upgraded_def del: map_map)
qed

lemma wf_world_init_db:
  assumes "wf_world w"
  shows "wf_world (snd (init_db env w))"
proof (cases "sqlite_error env")
  case None
  have "wf_table (create_table_if_not_exists (db w))"
    using assms by (simp add: create_table_if_not_exists_def wf_world_def wf_table_def
        split: option.splits)
  then have "wf_table (upgraded (create_table_if_not_exists (db w)))"
    by (rule wf_upgraded)
  then show ?thesis
    by (simp add: init_db_ok [OF None] wf_world_def)
next
  case (Some e)
  with assms show ?thesis
    by (simp add: init_db_down)
qed

lemma init_db_new_file:
  assumes "sqlite_error env = None" and "db w = None"
  shows "db (snd (init_db env w)) = Some \<lparr>columns = declared_columns, rows = [], seq = 0\<rparr>"
  using assms
  by (simp add: init_db_ok create_table_if_not_exists_def
      upgraded_complete [OF missing_upgrades_new])

lemma ready_after_init_db:
  assumes "sqlite_error env = None" and "sqlite_error env' = None" and "db w = None"
  shows "insert_ready env' (snd (init_db env w))" and "select_ready env' (snd (init_db env w))"
  using assms(2)
  by (simp_all add: init_db_new_file [OF assms(1,3)] insert_ready_def select_ready_def
      missing_column_def insert_columns_def select_columns_def declared_columns_def
      largest_rowid_def max_rowid_def)


text \<open>
  The run of the specification's own test: an alert is stored, its notification is
  marked as delivered, and the alert is stored again under the same path. The one row
  left has a new key and still says delivered.
\<close>

lemma delivered_flag_survives_restore:
  "map (\<lambda>r. (row_id r, image_path r, telegram_sent r))
     (rows_of (snd (store_alert env_ok
                      (snd (update_alert_status env_ok w_one ''a.jpg'' (Some True) None))
                      ''deer'' ''a.jpg''))) =
   [(2, ''a.jpg'', Some 1)]"
proof -
  have "db (snd (update_alert_status env_ok w_one ''a.jpg'' (Some True) None)) =
      Some \<lparr>columns = declared_columns,
            rows = [\<lparr>row_id = 1, label = ''deer'', timestamp = ''2024-01-01 10:00:00'',
                     image_path = ''a.jpg'', cloud_url = Some ''https://img.example/a.jpg'',
                     synced = Some 1, telegram_sent = Some 1, latitude = Some 12,
                     longitude = Some 77, location = Some ''Bengaluru''\<rparr>],
            seq = 1\<rparr>"
    by (simp add: update_alert_status_snd update_alert_status_try_cases db_w_one env_ok_def
        missing_column_def update_columns_def declared_columns_def update_rows_def
        set_flags_def py_flag_def)
  then show ?thesis
    by (simp add: rows_of_def env_ok_def insert_run_defs)
qed

end
